theory Spec2Isabelle
  imports Main
begin

section \<open>The relational tables\<close>

text \<open>
  The handlers of \<^verbatim>\<open>server.js\<close> work on the tables of one MySQL database through
  \<^verbatim>\<open>pool.execute\<close> and \<^verbatim>\<open>connection.execute\<close>. A table is the list of its rows, in
  the order in which a \<^verbatim>\<open>SELECT\<close> returns them; a row is a record of the columns that the
  modelled statements read or write. Auto-generated keys and timestamps that no modelled
  statement reads are left out. Numeric keys are natural numbers.
\<close>

record signup_code_row =
  sc_application_id :: nat
  sc_code :: string
  sc_first_names :: string
  sc_surname :: string
  sc_student_number :: string
  sc_level_of_study :: string
  sc_email :: string

text \<open>
  \<^verbatim>\<open>bcrypt.hash(password, 10)\<close> is kept symbolic: the digest records the plaintext and
  the cost factor it was computed from.
\<close>

datatype digest = Bcrypt string nat

record account_row =
  acc_email :: string
  acc_title :: string
  acc_password :: digest

text \<open>
  \<^verbatim>\<open>student_users.status\<close> is read as a JavaScript value that may be \<^verbatim>\<open>null\<close>, so the
  column is optional; \<open>None\<close> is SQL \<^verbatim>\<open>NULL\<close>.
\<close>

record student_user_row = account_row +
  su_status :: "string option"

record staff_code_row =
  stc_code :: string
  stc_staff_name :: string
  stc_staff_email :: string

record application_row =
  app_id :: nat
  app_first_names :: string
  app_surname :: string
  app_email :: string
  app_student_number :: string
  app_level_of_study :: string
  app_status :: string

record logsheet_row =
  log_student_number :: string
  log_date :: int

record lecture_row =
  gl_id :: nat
  gl_register_status :: string
  gl_event_date :: int

record attendance_row =
  ea_event_id :: nat
  ea_student_id :: nat
  ea_attended :: bool

text \<open>
  Dates are day numbers, so that \<^verbatim>\<open>DATEDIFF(a, b)\<close> is \<open>a - b\<close>. The column default of
  \<^verbatim>\<open>student_users.status\<close> belongs to a schema that is not part of the sources; it is a
  field of the database.
\<close>

record db =
  signup_codes :: "signup_code_row list"
  blocked_signups :: "string list"
  student_users :: "student_user_row list"
  student_users_status_default :: "string option"
  users :: "account_row list"
  staff_codes :: "staff_code_row list"
  wil_application :: "application_row list"
  daily_logsheet :: "logsheet_row list"
  guest_lectures :: "lecture_row list"
  event_attendance :: "attendance_row list"

section \<open>String comparison in SQL\<close>

text \<open>
  The dump \<^verbatim>\<open>wil_application.sql\<close> declares the collation \<^verbatim>\<open>utf8mb4_general_ci\<close>, under
  which \<^verbatim>\<open>=\<close> and \<^verbatim>\<open>LIKE\<close> on strings do not distinguish the case of letters: the
  registration handler finds with \<^verbatim>\<open>status = 'accepted'\<close> the rows that the status handler
  wrote as \<^verbatim>\<open>'Accepted'\<close>. \<open>sql_eq\<close> is that comparison on the ASCII letters (a small letter
  is its capital with bit 5 set), and it is
  the \<^verbatim>\<open>=\<close> of every \<^verbatim>\<open>WHERE\<close> on a string column. \<open>sql_like\<close> is \<^verbatim>\<open>LIKE\<close> with its two
  wildcards, \<^verbatim>\<open>%\<close> for any run of characters and \<^verbatim>\<open>_\<close> for one character. Comparisons
  made in JavaScript (\<^verbatim>\<open>===\<close>, \<^verbatim>\<open>!==\<close>, \<^verbatim>\<open>includes\<close>) are plain equality.
\<close>

definition fold_case :: "char \<Rightarrow> char" where
  "fold_case c =
     (let n = (of_char c :: nat) in
      if 97 \<le> n \<and> n \<le> 122
      then (case c of Char b0 b1 b2 b3 b4 b5 b6 b7 \<Rightarrow> Char b0 b1 b2 b3 b4 False b6 b7)
      else c)"

definition sql_eq :: "string \<Rightarrow> string \<Rightarrow> bool" where
  "sql_eq a b = (map fold_case a = map fold_case b)"

fun sql_like :: "string \<Rightarrow> string \<Rightarrow> bool" where
  "sql_like [] [] = True"
| "sql_like [] (c # cs) = False"
| "sql_like (p # ps) [] = (p = CHR ''%'' \<and> sql_like ps [])"
| "sql_like (p # ps) (c # cs) =
     (if p = CHR ''%'' then sql_like ps (c # cs) \<or> sql_like (p # ps) cs
      else (p = CHR ''_'' \<or> fold_case p = fold_case c) \<and> sql_like ps cs)"

section \<open>Requests, replies and errors\<close>

text \<open>
  A field of a JSON request body is absent (\<open>None\<close>, JavaScript \<^verbatim>\<open>undefined\<close>) or a
  string. \<open>truthy\<close> is the test \<^verbatim>\<open>if (x)\<close> on such a value: \<^verbatim>\<open>undefined\<close> and the
  empty string are falsy.
\<close>

definition truthy :: "string option \<Rightarrow> bool" where
  "truthy v = (case v of None \<Rightarrow> False | Some s \<Rightarrow> s \<noteq> [])"

datatype response = Response (status: nat) (message: string)

text \<open>
  What a statement of a handler can throw: the driver's \<^verbatim>\<open>ER_DUP_ENTRY\<close>, its refusal to
  bind \<^verbatim>\<open>undefined\<close>, the rejection of \<^verbatim>\<open>bcrypt.hash\<close> on a missing password, the
  error that the mail helpers throw, and the \<^verbatim>\<open>ReferenceError\<close> of reading a variable that
  is not in scope.
\<close>

datatype error = ER_DUP_ENTRY | BindUndefined | HashArguments | MailFailed | ReferenceError

definition bind_err :: "error + 'a \<Rightarrow> ('a \<Rightarrow> error + 'b) \<Rightarrow> error + 'b" where
  "bind_err m f = (case m of Inl e \<Rightarrow> Inl e | Inr x \<Rightarrow> f x)"

section \<open>POST /api/student\_signup\<close>

record signup_request =
  email :: "string option"
  title :: "string option"
  password :: "string option"
  code :: "string option"

definition bcrypt_hash :: "string option \<Rightarrow> nat \<Rightarrow> error + digest" where
  "bcrypt_hash pw cost = (case pw of None \<Rightarrow> Inl HashArguments | Some p \<Rightarrow> Inr (Bcrypt p cost))"

text \<open>
  Modelled from the spec: the declarations of \<^verbatim>\<open>student_users\<close> and \<^verbatim>\<open>users\<close> are not
  in the sources. The handler answers \<^verbatim>\<open>ER_DUP_ENTRY\<close> with "Email already exists in one or
  both systems" and the specification names a unique-constraint violation on a duplicate
  email, so both tables carry a unique key on \<^verbatim>\<open>email\<close>.
\<close>

definition insert_student_users ::
  "string option \<Rightarrow> string option \<Rightarrow> digest \<Rightarrow> db \<Rightarrow> error + db" where
  "insert_student_users e t h d =
     (case (e, t) of
        (Some e', Some t') \<Rightarrow>
          if list_ex (\<lambda>r. sql_eq (acc_email r) e') (student_users d) then Inl ER_DUP_ENTRY
          else Inr (d\<lparr>student_users := student_users d @
                 [\<lparr>acc_email = e', acc_title = t', acc_password = h,
                   su_status = student_users_status_default d\<rparr>]\<rparr>)
      | _ \<Rightarrow> Inl BindUndefined)"

definition insert_users ::
  "string option \<Rightarrow> string option \<Rightarrow> digest \<Rightarrow> db \<Rightarrow> error + db" where
  "insert_users e t h d =
     (case (e, t) of
        (Some e', Some t') \<Rightarrow>
          if list_ex (\<lambda>r. sql_eq (acc_email r) e') (users d) then Inl ER_DUP_ENTRY
          else Inr (d\<lparr>users := users d @
                 [\<lparr>acc_email = e', acc_title = t', acc_password = h\<rparr>]\<rparr>)
      | _ \<Rightarrow> Inl BindUndefined)"

definition delete_signup_code :: "string \<Rightarrow> db \<Rightarrow> db" where
  "delete_signup_code c d = d\<lparr>signup_codes := filter (\<lambda>r. \<not> sql_eq (sc_code r) c) (signup_codes d)\<rparr>"

text \<open>
  The statements between the code lookup and \<^verbatim>\<open>connection.commit()\<close>, run on the
  transaction's view of the database. The first statement that throws ends them.
\<close>

definition student_signup_writes :: "signup_request \<Rightarrow> string \<Rightarrow> db \<Rightarrow> error + db" where
  "student_signup_writes req c d =
     bind_err (bcrypt_hash (password req) 10) (\<lambda>hashedPassword.
     bind_err (insert_student_users (email req) (title req) hashedPassword d) (\<lambda>d1.
     bind_err (insert_users (email req) (title req) hashedPassword d1) (\<lambda>d2.
     Inr (delete_signup_code c d2))))"

text \<open>
  The handler. A transaction is the database it started from and the view its statements
  have built: \<^verbatim>\<open>commit\<close> returns the view, \<^verbatim>\<open>rollback\<close> the database it started from.
\<close>

definition student_signup :: "signup_request \<Rightarrow> db \<Rightarrow> response \<times> db" where
  "student_signup req d =
     (case code req of
        None \<Rightarrow> (Response 400 ''Signup code is required'', d)
      | Some c \<Rightarrow>
          if c = [] then (Response 400 ''Signup code is required'', d)
          else
            let codeRows = filter (\<lambda>r. sql_eq (sc_code r) c) (signup_codes d) in
            if length codeRows = 0 then (Response 400 ''Invalid or expired signup code'', d)
            else
              (case student_signup_writes req c d of
                 Inr d' \<Rightarrow> (Response 201 ''User registered successfully in both systems'', d')
               | Inl err \<Rightarrow>
                   if err = ER_DUP_ENTRY
                   then (Response 400 ''Email already exists in one or both systems'', d)
                   else (Response 500 ''Signup failed'', d)))"

section \<open>POST /api/validate-signup-code and POST /api/block-signup-email\<close>

datatype reply = Reply (http_status: nat) (success: bool) (reply_message: string)

text \<open>
  The validation handler runs one \<^verbatim>\<open>SELECT\<close>: the code's rows, each with \<^verbatim>\<open>is_blocked\<close>,
  the result of the correlated subquery on \<^verbatim>\<open>blocked_signups\<close> for the row's own email. It
  answers from the first row.
\<close>

definition is_blocked :: "db \<Rightarrow> signup_code_row \<Rightarrow> bool" where
  "is_blocked d s = list_ex (\<lambda>b. sql_eq b (sc_email s)) (blocked_signups d)"

definition validate_signup_code :: "string option \<Rightarrow> db \<Rightarrow> reply \<times> db" where
  "validate_signup_code code_field d =
     (case code_field of
        None \<Rightarrow> (Reply 400 False ''Code is required'', d)
      | Some c \<Rightarrow>
          if c = [] then (Reply 400 False ''Code is required'', d)
          else
            (case filter (\<lambda>s. sql_eq (sc_code s) c) (signup_codes d) of
               [] \<Rightarrow> (Reply 200 False ''Invalid code'', d)
             | codeEntry # _ \<Rightarrow>
                 if is_blocked d codeEntry
                 then (Reply 200 False ''This email is blocked from signing up'', d)
                 else (Reply 200 True ''Valid code'', d)))"

definition block_signup_email :: "string option \<Rightarrow> db \<Rightarrow> reply \<times> db" where
  "block_signup_email email_field d =
     (case email_field of
        None \<Rightarrow> (Reply 400 False ''Email is required'', d)
      | Some e \<Rightarrow>
          if e = [] then (Reply 400 False ''Email is required'', d)
          else (Reply 200 True ''Email has been blocked'',
                d\<lparr>blocked_signups := blocked_signups d @ [e]\<rparr>))"

section \<open>PUT /api/update-status/:id\<close>

text \<open>
  \<^verbatim>\<open>sendAcceptanceEmail\<close> and \<^verbatim>\<open>sendRejectionEmail\<close> catch the failure of
  \<^verbatim>\<open>transporter.sendMail\<close> and throw "Status updated but failed to send email". Whether
  the transport delivers is an input of the model.
\<close>

definition sendAcceptanceEmail :: "bool \<Rightarrow> error + unit" where
  "sendAcceptanceEmail mail_ok = (if mail_ok then Inr () else Inl MailFailed)"

definition sendRejectionEmail :: "bool \<Rightarrow> error + unit" where
  "sendRejectionEmail mail_ok = (if mail_ok then Inr () else Inl MailFailed)"

definition update_application_status :: "nat \<Rightarrow> string \<Rightarrow> db \<Rightarrow> db" where
  "update_application_status i st d =
     d\<lparr>wil_application :=
         map (\<lambda>r. if app_id r = i then r\<lparr>app_status := st\<rparr> else r) (wil_application d)\<rparr>"

definition insert_signup_code :: "nat \<Rightarrow> string \<Rightarrow> application_row \<Rightarrow> db \<Rightarrow> db" where
  "insert_signup_code i generatedCode appData d =
     d\<lparr>signup_codes := signup_codes d @
         [\<lparr>sc_application_id = i, sc_code = generatedCode,
           sc_first_names = app_first_names appData, sc_surname = app_surname appData,
           sc_student_number = app_student_number appData,
           sc_level_of_study = app_level_of_study appData,
           sc_email = app_email appData\<rparr>]\<rparr>"

text \<open>
  Step 3 of the handler, inside the transaction and before \<^verbatim>\<open>connection.commit()\<close>: for
  "Accepted" the code is stored and the acceptance mail is awaited, for "Rejected" the
  rejection mail is awaited. The result carries the generated code of the reply.
\<close>

definition update_status_step3 ::
  "nat \<Rightarrow> string \<Rightarrow> string \<Rightarrow> bool \<Rightarrow> application_row \<Rightarrow> db \<Rightarrow> error + (string option \<times> db)" where
  "update_status_step3 i st random_code mail_ok appData d =
     (if st = ''Accepted'' then
        (let generatedCode = random_code;
             d1 = insert_signup_code i generatedCode appData d
         in bind_err (sendAcceptanceEmail mail_ok) (\<lambda>_. Inr (Some generatedCode, d1)))
      else if st = ''Rejected'' then
        bind_err (sendRejectionEmail mail_ok) (\<lambda>_. Inr (None, d))
      else Inr (None, d))"

text \<open>
  The handler: \<open>i\<close> is the \<^verbatim>\<open>:id\<close> of the path, \<open>status_field\<close> the \<^verbatim>\<open>status\<close> of the body,
  \<open>random_code\<close> what \<^verbatim>\<open>generateRandomCode()\<close> returns when it is called. The driver
  reports the matched rows as \<^verbatim>\<open>affectedRows\<close>. The second component of the result is the
  \<^verbatim>\<open>code\<close> of the reply.
\<close>

definition update_status ::
  "nat \<Rightarrow> string option \<Rightarrow> string \<Rightarrow> bool \<Rightarrow> db \<Rightarrow> reply \<times> string option \<times> db" where
  "update_status i status_field random_code mail_ok d =
     (case status_field of
        None \<Rightarrow> (Reply 400 False ''Invalid status value'', None, d)
      | Some st \<Rightarrow>
          if st = [] \<or> st \<notin> set [''Pending'', ''Accepted'', ''Rejected'']
          then (Reply 400 False ''Invalid status value'', None, d)
          else
            (case filter (\<lambda>r. app_id r = i) (wil_application d) of
               [] \<Rightarrow> (Reply 404 False ''Application not found'', None, d)
             | appData # _ \<Rightarrow>
                 let d1 = update_application_status i st d;
                     affectedRows = length (filter (\<lambda>r. app_id r = i) (wil_application d))
                 in
                 if affectedRows = 0 then (Reply 500 False ''No rows were updated'', None, d)
                 else
                   (case update_status_step3 i st random_code mail_ok appData d1 of
                      Inr (generatedCode, d2) \<Rightarrow>
                        (Reply 200 True ''Status updated successfully'', generatedCode, d2)
                    | Inl err \<Rightarrow>
                        (Reply 500 False ''Database operation failed'', None, d))))"

section \<open>POST /api/staff\_codes\<close>

record staff_code_request =
  staff_name :: "string option"
  staff_email :: "string option"

text \<open>
  \<^verbatim>\<open>/^[^\s@]+@[^\s@]+\.[^\s@]+$/\<close>: a non-empty run without white space and \<^verbatim>\<open>@\<close>, one
  \<^verbatim>\<open>@\<close>, and a second such run with a dot that is neither its first nor its last
  character. Characters are 8-bit; the white space of \<^verbatim>\<open>\s\<close> among them is tab, line feed,
  vertical tab, form feed, carriage return, space and the no-break space.
\<close>

definition regex_space :: "char \<Rightarrow> bool" where
  "regex_space c = ((of_char c :: nat) \<in> set [9, 10, 11, 12, 13, 32, 160])"

definition emailRegex_test :: "string \<Rightarrow> bool" where
  "emailRegex_test s =
     (let local_part = takeWhile (\<lambda>c. c \<noteq> CHR ''@'') s;
          rest = dropWhile (\<lambda>c. c \<noteq> CHR ''@'') s
      in local_part \<noteq> [] \<and> list_all (\<lambda>c. \<not> regex_space c) local_part \<and>
         (case rest of
            [] \<Rightarrow> False
          | _ # domain_part \<Rightarrow>
              list_all (\<lambda>c. \<not> regex_space c \<and> c \<noteq> CHR ''@'') domain_part \<and>
              CHR ''.'' \<in> set (butlast (tl domain_part))))"

text \<open>
  \<^verbatim>\<open>generateStaffCode()\<close> draws from \<^verbatim>\<open>Math.random()\<close>. The random source is a function
  from the number of calls made so far to the code the next call returns; a call returns
  the code and the new count.
\<close>

definition generateStaffCode :: "(nat \<Rightarrow> string) \<Rightarrow> nat \<Rightarrow> string \<times> nat" where
  "generateStaffCode random_source calls = (random_source calls, calls + 1)"

definition maxAttempts :: nat where
  "maxAttempts = 5"

text \<open>
  The loop \<^verbatim>\<open>while (!isUnique && attempts < maxAttempts)\<close> on its variables \<^verbatim>\<open>code\<close>,
  \<^verbatim>\<open>isUnique\<close> and \<^verbatim>\<open>attempts\<close>, and on the count of calls of the generator.
\<close>

function staff_code_loop ::
  "(nat \<Rightarrow> string) \<Rightarrow> staff_code_row list \<Rightarrow> string option \<Rightarrow> bool \<Rightarrow> nat \<Rightarrow> nat \<Rightarrow>
   string option \<times> bool \<times> nat \<times> nat" where
  "staff_code_loop random_source tbl code_var isUnique attempts calls =
     (if \<not> isUnique \<and> attempts < maxAttempts then
        (case generateStaffCode random_source calls of
           (c, calls') \<Rightarrow>
             let existing = filter (\<lambda>r. sql_eq (stc_code r) c) tbl
             in staff_code_loop random_source tbl (Some c) (length existing = 0)
                  (attempts + 1) calls')
      else (code_var, isUnique, attempts, calls))"
  by pat_completeness auto
termination
  by (relation "measure (\<lambda>(random_source, tbl, code_var, isUnique, attempts, calls).
        maxAttempts - attempts)") auto

definition insert_staff_code :: "string \<Rightarrow> string \<Rightarrow> string \<Rightarrow> db \<Rightarrow> db" where
  "insert_staff_code c n e d =
     d\<lparr>staff_codes := staff_codes d @
         [\<lparr>stc_code = c, stc_staff_name = n, stc_staff_email = e\<rparr>]\<rparr>"

text \<open>
  The handler. Its result is the reply (or the error that leaves the handler when it sends
  none), the \<^verbatim>\<open>code\<close> of the reply's \<^verbatim>\<open>data\<close>, the number of calls of
  \<^verbatim>\<open>generateStaffCode\<close> it made, and the database. The \<^verbatim>\<open>INSERT\<close> runs on the pool, outside
  any transaction, before the mail is sent. \<^verbatim>\<open>sendStaffCodeEmail\<close> throws "Status updated
  but failed to send email" when the transport fails; the handler's \<^verbatim>\<open>catch\<close> recognises
  the message and builds a 201 reply with \<^verbatim>\<open>data: { code }\<close>, but \<^verbatim>\<open>let code\<close> is declared
  inside the \<^verbatim>\<open>try\<close> block and no other \<^verbatim>\<open>code\<close> is in scope in the \<^verbatim>\<open>catch\<close>: reading it
  throws a \<^verbatim>\<open>ReferenceError\<close> out of the handler, and no reply is sent. The loop body runs
  at least once, so \<^verbatim>\<open>code\<close> is assigned when \<^verbatim>\<open>isUnique\<close> holds; the case of an unassigned
  \<^verbatim>\<open>code\<close> is the other branch of the \<^verbatim>\<open>catch\<close>.
\<close>

definition create_staff_code ::
  "staff_code_request \<Rightarrow> (nat \<Rightarrow> string) \<Rightarrow> bool \<Rightarrow> db \<Rightarrow>
   (error + reply) \<times> string option \<times> nat \<times> db" where
  "create_staff_code req random_source mail_ok d =
     (case (staff_name req, staff_email req) of
        (Some n, Some e) \<Rightarrow>
          if n = [] \<or> e = []
          then (Inr (Reply 400 False ''Staff name and email are required''), None, 0, d)
          else if \<not> emailRegex_test e
          then (Inr (Reply 400 False ''Invalid email format''), None, 0, d)
          else
            (case staff_code_loop random_source (staff_codes d) None False 0 0 of
               (code_var, isUnique, attempts, calls) \<Rightarrow>
                 if \<not> isUnique
                 then (Inr (Reply 500 False ''Failed to generate unique staff code''),
                       None, calls, d)
                 else
                   (case code_var of
                      None \<Rightarrow> (Inr (Reply 500 False ''Internal server error''), None, calls, d)
                    | Some c \<Rightarrow>
                        let d1 = insert_staff_code c n e d in
                        if mail_ok
                        then (Inr (Reply 201 True ''Staff code created and sent via email''),
                              Some c, calls, d1)
                        else (Inl ReferenceError, None, calls, d1)))
      | _ \<Rightarrow> (Inr (Reply 400 False ''Staff name and email are required''), None, 0, d))"

section \<open>Student status\<close>

text \<open>
  The rows of \<^verbatim>\<open>student_users\<close> that \<^verbatim>\<open>WHERE email LIKE ?\<close> selects for the pattern
  \<^verbatim>\<open>`${studentNumber}@%`\<close>, and the \<^verbatim>\<open>UPDATE\<close> of the status of those rows.
\<close>

definition email_pattern :: "string \<Rightarrow> string" where
  "email_pattern studentNumber = studentNumber @ ''@%''"

definition select_student :: "string \<Rightarrow> db \<Rightarrow> student_user_row list" where
  "select_student studentNumber d =
     filter (\<lambda>r. sql_like (email_pattern studentNumber) (acc_email r)) (student_users d)"

definition set_student_status :: "string \<Rightarrow> string \<Rightarrow> db \<Rightarrow> db" where
  "set_student_status st studentNumber d =
     d\<lparr>student_users :=
         map (\<lambda>r. if sql_like (email_pattern studentNumber) (acc_email r)
                  then r\<lparr>su_status := Some st\<rparr> else r) (student_users d)\<rparr>"

text \<open>
  \<^verbatim>\<open>SELECT MAX(log_date) FROM daily_logsheet WHERE student_number = ?\<close>: \<^verbatim>\<open>NULL\<close> when no
  row matches.
\<close>

fun sql_max :: "int list \<Rightarrow> int option" where
  "sql_max [] = None"
| "sql_max (x # xs) = (case sql_max xs of None \<Rightarrow> Some x | Some m \<Rightarrow> Some (max x m))"

definition last_log_date :: "string \<Rightarrow> db \<Rightarrow> int option" where
  "last_log_date studentNumber d =
     sql_max (map log_date
       (filter (\<lambda>r. sql_eq (log_student_number r) studentNumber) (daily_logsheet d)))"

subsection \<open>POST /api/suspend-student/:student\_number and /api/unenroll-student/:student\_number\<close>

text \<open>
  Both handlers answer with the first row of a second \<^verbatim>\<open>SELECT\<close>. Their mail helpers catch
  the failure of the transport and throw nothing.
\<close>

definition suspend_student :: "string \<Rightarrow> db \<Rightarrow> (reply \<times> student_user_row option) \<times> db" where
  "suspend_student studentNumber d =
     (if length (select_student studentNumber d) = 0
      then ((Reply 404 False ''Student not found'', None), d)
      else
        let d1 = set_student_status ''suspended'' studentNumber d;
            updatedStudent = select_student studentNumber d1
        in ((Reply 200 True ''Student suspended successfully'',
             case updatedStudent of [] \<Rightarrow> None | r # _ \<Rightarrow> Some r), d1))"

definition unenroll_student :: "string \<Rightarrow> db \<Rightarrow> (reply \<times> student_user_row option) \<times> db" where
  "unenroll_student studentNumber d =
     (if length (select_student studentNumber d) = 0
      then ((Reply 404 False ''Student not found'', None), d)
      else
        let d1 = set_student_status ''unenrolled'' studentNumber d;
            updatedStudent = select_student studentNumber d1
        in ((Reply 200 True ''Student unenrolled successfully'',
             case updatedStudent of [] \<Rightarrow> None | r # _ \<Rightarrow> Some r), d1))"

subsection \<open>POST /api/update-student-status/:student\_number\<close>

text \<open>
  The messages of the handler; two of them quote the number of days. \<^verbatim>\<open>newStatus\<close> starts
  as the current status and is assigned in every branch before it is read.
\<close>

datatype status_message =
    StatusUnchanged
  | NoActivityRecords
  | Reactivated int
  | SetInactive int

record status_body =
  body_message :: status_message
  status_changed :: bool
  data :: "student_user_row option"
  last_activity_date :: "int option"
  days_since_last_activity :: "int option"

text \<open>
  Steps 2 and 3 of the handler: from the current status, the latest log date and
  \<^verbatim>\<open>CURDATE()\<close> to \<^verbatim>\<open>newStatus\<close>, \<^verbatim>\<open>message\<close> and \<^verbatim>\<open>daysSinceLastActivity\<close>.
\<close>

definition compute_new_status ::
  "int \<Rightarrow> int option \<Rightarrow> string \<times> status_message \<times> int option" where
  "compute_new_status today lastLogDate =
     (case lastLogDate of
        None \<Rightarrow> (''inactive'', NoActivityRecords, None)
      | Some l \<Rightarrow>
          let daysSinceLastActivity = today - l in
          if daysSinceLastActivity \<le> 10
          then (''active'', Reactivated daysSinceLastActivity, Some daysSinceLastActivity)
          else (''inactive'', SetInactive daysSinceLastActivity, Some daysSinceLastActivity))"

text \<open>
  The handler: \<open>today\<close> is \<^verbatim>\<open>CURDATE()\<close>. The \<^verbatim>\<open>UPDATE\<close> runs when \<^verbatim>\<open>newStatus\<close> differs
  from the status of the first selected row.
\<close>

definition update_student_status :: "int \<Rightarrow> string \<Rightarrow> db \<Rightarrow> (reply + status_body) \<times> db" where
  "update_student_status today studentNumber d =
     (case select_student studentNumber d of
        [] \<Rightarrow> (Inl (Reply 404 False ''Student not found''), d)
      | student0 # _ \<Rightarrow>
          let lastLogDate = last_log_date studentNumber d in
          (case compute_new_status today lastLogDate of
             (newStatus, msg, daysSinceLastActivity) \<Rightarrow>
               let changed = (Some newStatus \<noteq> su_status student0);
                   d1 = (if changed then set_student_status newStatus studentNumber d else d);
                   updatedStudent = select_student studentNumber d1
               in (Inr \<lparr>body_message = msg, status_changed = changed,
                         data = (case updatedStudent of [] \<Rightarrow> None | r # _ \<Rightarrow> Some r),
                         last_activity_date = lastLogDate,
                         days_since_last_activity = daysSinceLastActivity\<rparr>, d1)))"

section \<open>POST /api/lectures/register\<close>

text \<open>
  \<open>event_id\<close> is a number of the JSON body, falsy when absent or 0; \<open>student_id\<close> is the
  student number, a string. \<open>today\<close> and the event's date are days, as the handler sets
  the hours of both to 0 before it compares them.
\<close>

definition registration_count :: "nat \<Rightarrow> nat \<Rightarrow> db \<Rightarrow> nat" where
  "registration_count event wilAppId d =
     length (filter (\<lambda>r. ea_event_id r = event \<and> ea_student_id r = wilAppId)
       (event_attendance d))"

definition register_lecture :: "int \<Rightarrow> nat option \<Rightarrow> string option \<Rightarrow> db \<Rightarrow> reply \<times> db" where
  "register_lecture today event_id student_id d =
     (case (event_id, student_id) of
        (Some ev, Some sid) \<Rightarrow>
          if ev = 0 \<or> sid = []
          then (Reply 400 False ''Missing event_id or student_id'', d)
          else
            (case filter (\<lambda>r. gl_id r = ev) (guest_lectures d) of
               [] \<Rightarrow> (Reply 404 False ''Event not found'', d)
             | event # _ \<Rightarrow>
                 if gl_register_status event \<noteq> ''active''
                 then (Reply 403 False ''Registration is not active for this event'', d)
                 else if gl_event_date event < today
                 then (Reply 403 False ''Cannot register for past events'', d)
                 else
                   (case filter (\<lambda>r. sql_eq (app_student_number r) sid \<and>
                                     sql_eq (app_status r) ''accepted'') (wil_application d) of
                      [] \<Rightarrow> (Reply 403 False
                               ''You are not eligible to register for this event'', d)
                    | studentStatus0 # _ \<Rightarrow>
                        let wilAppId = app_id studentStatus0;
                            registrationCount = registration_count ev wilAppId d
                        in
                        if registrationCount \<ge> 1
                        then (Reply 403 False
                                ''Maximum registrations (2) reached for this event'', d)
                        else (Reply 201 True ''Successfully registered for the lecture'',
                              d\<lparr>event_attendance := event_attendance d @
                                  [\<lparr>ea_event_id = ev, ea_student_id = wilAppId,
                                    ea_attended = False\<rparr>]\<rparr>)))
      | _ \<Rightarrow> (Reply 400 False ''Missing event_id or student_id'', d))"

section \<open>Example data\<close>

text \<open>
  A database with empty tables, and rows and requests for the examples that follow the
  theorems.
\<close>

definition empty_db :: db where
  "empty_db = \<lparr>signup_codes = [], blocked_signups = [], student_users = [],
     student_users_status_default = Some ''active'', users = [], staff_codes = [],
     wil_application = [], daily_logsheet = [], guest_lectures = [], event_attendance = []\<rparr>"

definition code_row :: "string \<Rightarrow> string \<Rightarrow> signup_code_row" where
  "code_row c e = \<lparr>sc_application_id = 42, sc_code = c, sc_first_names = ''Thabo'',
     sc_surname = ''Mkhize'', sc_student_number = ''202312345'', sc_level_of_study = ''NDip'',
     sc_email = e\<rparr>"

definition signup_of :: "string \<Rightarrow> string \<Rightarrow> signup_request" where
  "signup_of e c =
     \<lparr>email = Some e, title = Some ''Mr'', password = Some ''secret'', code = Some c\<rparr>"

definition student_row :: "string \<Rightarrow> string option \<Rightarrow> student_user_row" where
  "student_row e st = \<lparr>acc_email = e, acc_title = ''Mr'',
     acc_password = Bcrypt ''secret'' 10, su_status = st\<rparr>"

definition user_row :: "string \<Rightarrow> account_row" where
  "user_row e = \<lparr>acc_email = e, acc_title = ''Mr'', acc_password = Bcrypt ''secret'' 10\<rparr>"

definition db_code_issued :: db where
  "db_code_issued = empty_db\<lparr>signup_codes := [code_row ''ABCD1234'' ''thabo@live.mut.ac.za'']\<rparr>"

definition db_code_redeemed :: db where
  "db_code_redeemed =
     empty_db\<lparr>student_users := [student_row ''202312345@live.mut.ac.za'' (Some ''active'')],
              users := [user_row ''202312345@live.mut.ac.za'']\<rparr>"

definition db_email_taken :: db where
  "db_email_taken = db_code_issued\<lparr>users := [user_row ''202312345@live.mut.ac.za'']\<rparr>"

definition staff_of :: "string \<Rightarrow> string \<Rightarrow> staff_code_request" where
  "staff_of n e = \<lparr>staff_name = Some n, staff_email = Some e\<rparr>"

definition db_staff :: db where
  "db_staff = empty_db\<lparr>staff_codes :=
     [\<lparr>stc_code = ''K3X9QA'', stc_staff_name = ''Dr Zulu'', stc_staff_email = ''zulu@mut.ac.za''\<rparr>]\<rparr>"

definition third_is_fresh :: "nat \<Rightarrow> string" where
  "third_is_fresh k = (if k < 2 then ''K3X9QA'' else ''7PLM2Z'')"

definition always_taken :: "nat \<Rightarrow> string" where
  "always_taken k = ''K3X9QA''"

lemmas signup_eval =
  student_signup_def student_signup_writes_def bind_err_def bcrypt_hash_def
  insert_student_users_def insert_users_def delete_signup_code_def sql_eq_def fold_case_def
  empty_db_def code_row_def signup_of_def student_row_def user_row_def
  db_code_issued_def db_code_redeemed_def db_email_taken_def

definition log_row :: "string \<Rightarrow> int \<Rightarrow> logsheet_row" where
  "log_row sn day = \<lparr>log_student_number = sn, log_date = day\<rparr>"

definition db_student :: "string option \<Rightarrow> int list \<Rightarrow> db" where
  "db_student st days =
     empty_db\<lparr>student_users := [student_row ''202312345@live.mut.ac.za'' st,
                                 student_row ''202312346@live.mut.ac.za'' (Some ''active'')],
              daily_logsheet := map (log_row ''202312345'') days @ [log_row ''202312346'' 400]\<rparr>"

lemmas status_eval =
  select_student_def email_pattern_def last_log_date_def set_student_status_def
  compute_new_status_def sql_eq_def fold_case_def log_row_def db_student_def empty_db_def
  student_row_def

definition application_of :: "nat \<Rightarrow> string \<Rightarrow> string \<Rightarrow> application_row" where
  "application_of i sn st = \<lparr>app_id = i, app_first_names = ''Thabo'', app_surname = ''Mkhize'',
     app_email = ''thabo@live.mut.ac.za'', app_student_number = sn,
     app_level_of_study = ''NDip'', app_status = st\<rparr>"

definition db_lecture :: "attendance_row list \<Rightarrow> db" where
  "db_lecture regs =
     empty_db\<lparr>wil_application := [application_of 1 ''202312345'' ''Accepted''],
              guest_lectures := [\<lparr>gl_id = 7, gl_register_status = ''active'', gl_event_date = 420\<rparr>],
              event_attendance := regs\<rparr>"

definition db_application :: "string \<Rightarrow> signup_code_row list \<Rightarrow> db" where
  "db_application st codes =
     empty_db\<lparr>wil_application := [application_of 42 ''202312345'' st], signup_codes := codes\<rparr>"

section \<open>Redemption of signup codes\<close>

lemma writes_signup_codes:
  "student_signup_writes req c d = Inr d' \<Longrightarrow>
   signup_codes d' = filter (\<lambda>r. \<not> sql_eq (sc_code r) c) (signup_codes d)"
  by (auto simp: student_signup_writes_def bind_err_def bcrypt_hash_def insert_student_users_def
      insert_users_def delete_signup_code_def split: sum.splits option.splits if_splits)

lemma student_signup_created:
  assumes "student_signup req d = (r, d')" "status r = 201"
  obtains c where "code req = Some c" "c \<noteq> []" "student_signup_writes req c d = Inr d'"
  using assms
  by (auto simp: student_signup_def Let_def split: option.splits if_splits sum.splits)

text \<open>
  Claim C1. When a call of the signup handler has answered 201, the database it leaves
  holds no row for the code it redeemed: every later call that presents the same code
  answers 400 "Invalid or expired signup code" and leaves the database as it found it, so
  that no account row is created, however many such calls follow.
\<close>

theorem signup_code_single_use:
  assumes first: "student_signup req d = (r, d')" "status r = 201"
      and again: "\<forall>q \<in> set attempts. code q = code req"
  shows "(\<forall>q \<in> set attempts.
            student_signup q d' = (Response 400 ''Invalid or expired signup code'', d')) \<and>
         foldl (\<lambda>s q. snd (student_signup q s)) d' attempts = d'"
proof -
  from first obtain c where c: "code req = Some c" "c \<noteq> []"
    and w: "student_signup_writes req c d = Inr d'"
    by (rule student_signup_created)
  from w have gone: "filter (\<lambda>r. sql_eq (sc_code r) c) (signup_codes d') = []"
    by (simp add: writes_signup_codes)
  have each: "\<forall>q \<in> set attempts.
           student_signup q d' = (Response 400 ''Invalid or expired signup code'', d')"
    using again c gone by (simp add: student_signup_def)
  from each have "foldl (\<lambda>s q. snd (student_signup q s)) d' attempts = d'"
    by (induction attempts) simp_all
  with each show ?thesis by simp
qed

theorem signup_code_single_use_witness:
  "student_signup (signup_of ''202312345@live.mut.ac.za'' ''ABCD1234'') db_code_issued =
     (Response 201 ''User registered successfully in both systems'', db_code_redeemed) \<and>
   student_signup (signup_of ''other@live.mut.ac.za'' ''ABCD1234'') db_code_redeemed =
     (Response 400 ''Invalid or expired signup code'', db_code_redeemed)"
proof -
  have run: "student_signup (signup_of ''202312345@live.mut.ac.za'' ''ABCD1234'') db_code_issued =
     (Response 201 ''User registered successfully in both systems'', db_code_redeemed)"
    by (simp add: signup_eval)
  have created: "status (Response 201 ''User registered successfully in both systems'') = 201"
    by simp
  from signup_code_single_use
    [OF run created, of "[signup_of ''other@live.mut.ac.za'' ''ABCD1234'']"]
  have "student_signup (signup_of ''other@live.mut.ac.za'' ''ABCD1234'') db_code_redeemed =
     (Response 400 ''Invalid or expired signup code'', db_code_redeemed)"
    by (simp add: signup_of_def)
  with run show ?thesis by simp
qed

lemma student_signup_writes_cases:
  "student_signup_writes req c d =
     (case (password req, email req, title req) of
        (Some p, Some e, Some t) \<Rightarrow>
          if list_ex (\<lambda>r. sql_eq (acc_email r) e) (student_users d) then Inl ER_DUP_ENTRY
          else if list_ex (\<lambda>r. sql_eq (acc_email r) e) (users d) then Inl ER_DUP_ENTRY
          else Inr (d\<lparr>student_users := student_users d @
                       [\<lparr>acc_email = e, acc_title = t, acc_password = Bcrypt p 10,
                         su_status = student_users_status_default d\<rparr>],
                     users := users d @
                       [\<lparr>acc_email = e, acc_title = t, acc_password = Bcrypt p 10\<rparr>],
                     signup_codes := filter (\<lambda>r. \<not> sql_eq (sc_code r) c) (signup_codes d)\<rparr>)
      | (None, _, _) \<Rightarrow> Inl HashArguments
      | _ \<Rightarrow> Inl BindUndefined)"
  by (simp add: student_signup_writes_def bind_err_def bcrypt_hash_def insert_student_users_def
      insert_users_def delete_signup_code_def split: option.splits)

lemma code_found:
  "list_ex (\<lambda>r. sql_eq (sc_code r) c) (signup_codes d) \<Longrightarrow>
   length (filter (\<lambda>r. sql_eq (sc_code r) c) (signup_codes d)) \<noteq> 0"
  by (simp add: list_ex_iff filter_empty_conv)

text \<open>
  Claim C2. For a request whose code is in \<^verbatim>\<open>signup_codes\<close>, the handler either answers 201
  and has made its three writes together (a row in \<^verbatim>\<open>student_users\<close>, a row in \<^verbatim>\<open>users\<close>
  with the same digest, and the code's rows deleted), or it answers something else and has
  left the database as it was. A duplicate email in either table is answered with 400
  "Email already exists in one or both systems" and no change. After a failure the code is
  still redeemable: a request with that code and an email that neither table holds is
  answered with 201.
\<close>

theorem student_signup_atomic:
  assumes present: "code req = Some c" "c \<noteq> []"
      and found: "list_ex (\<lambda>r. sql_eq (sc_code r) c) (signup_codes d)"
      and run: "student_signup req d = (r, d')"
  shows "((\<exists>e t p. email req = Some e \<and> title req = Some t \<and> password req = Some p \<and>
            status r = 201 \<and>
            d' = d\<lparr>student_users := student_users d @
                      [\<lparr>acc_email = e, acc_title = t, acc_password = Bcrypt p 10,
                        su_status = student_users_status_default d\<rparr>],
                    users := users d @
                      [\<lparr>acc_email = e, acc_title = t, acc_password = Bcrypt p 10\<rparr>],
                    signup_codes := filter (\<lambda>r. \<not> sql_eq (sc_code r) c) (signup_codes d)\<rparr>) \<or>
          (status r \<noteq> 201 \<and> d' = d)) \<and>
         (\<forall>e. email req = Some e \<and> title req \<noteq> None \<and> password req \<noteq> None \<and>
              (list_ex (\<lambda>u. sql_eq (acc_email u) e) (student_users d) \<or>
               list_ex (\<lambda>u. sql_eq (acc_email u) e) (users d)) \<longrightarrow>
              r = Response 400 ''Email already exists in one or both systems'' \<and> d' = d) \<and>
         (status r \<noteq> 201 \<longrightarrow>
            (\<forall>q e. code q = Some c \<and> email q = Some e \<and> title q \<noteq> None \<and> password q \<noteq> None \<and>
                 \<not> list_ex (\<lambda>u. sql_eq (acc_email u) e) (student_users d') \<and>
                 \<not> list_ex (\<lambda>u. sql_eq (acc_email u) e) (users d') \<longrightarrow>
                 status (fst (student_signup q d')) = 201))"
proof -
  note found' = code_found [OF found]
  have either: "(\<exists>e t p. email req = Some e \<and> title req = Some t \<and> password req = Some p \<and>
            status r = 201 \<and>
            d' = d\<lparr>student_users := student_users d @
                      [\<lparr>acc_email = e, acc_title = t, acc_password = Bcrypt p 10,
                        su_status = student_users_status_default d\<rparr>],
                    users := users d @
                      [\<lparr>acc_email = e, acc_title = t, acc_password = Bcrypt p 10\<rparr>],
                    signup_codes := filter (\<lambda>r. \<not> sql_eq (sc_code r) c) (signup_codes d)\<rparr>) \<or>
          (status r \<noteq> 201 \<and> d' = d)"
    using run present found'
    by (auto simp: student_signup_def student_signup_writes_cases
        split: option.splits if_splits)
  have dup: "\<forall>e. email req = Some e \<and> title req \<noteq> None \<and> password req \<noteq> None \<and>
              (list_ex (\<lambda>u. sql_eq (acc_email u) e) (student_users d) \<or>
               list_ex (\<lambda>u. sql_eq (acc_email u) e) (users d)) \<longrightarrow>
              r = Response 400 ''Email already exists in one or both systems'' \<and> d' = d"
    using run present found'
    by (auto simp: student_signup_def student_signup_writes_cases split: if_splits)
  have retry: "status r \<noteq> 201 \<longrightarrow>
            (\<forall>q e. code q = Some c \<and> email q = Some e \<and> title q \<noteq> None \<and> password q \<noteq> None \<and>
                 \<not> list_ex (\<lambda>u. sql_eq (acc_email u) e) (student_users d') \<and>
                 \<not> list_ex (\<lambda>u. sql_eq (acc_email u) e) (users d') \<longrightarrow>
                 status (fst (student_signup q d')) = 201)"
  proof (intro impI allI)
    fix q :: signup_request and e
    assume failed: "status r \<noteq> 201"
      and q: "code q = Some c \<and> email q = Some e \<and> title q \<noteq> None \<and> password q \<noteq> None \<and>
                 \<not> list_ex (\<lambda>u. sql_eq (acc_email u) e) (student_users d') \<and>
                 \<not> list_ex (\<lambda>u. sql_eq (acc_email u) e) (users d')"
    from either failed have same: "d' = d" by auto
    from q present found' show "status (fst (student_signup q d')) = 201"
      unfolding same
      by (auto simp: student_signup_def student_signup_writes_cases)
  qed
  from either dup retry show ?thesis by blast
qed

theorem student_signup_atomic_witness:
  "student_signup (signup_of ''202312345@live.mut.ac.za'' ''ABCD1234'') db_email_taken =
     (Response 400 ''Email already exists in one or both systems'', db_email_taken) \<and>
   student_users db_email_taken = [] \<and>
   list_ex (\<lambda>r. sql_eq (sc_code r) ''ABCD1234'') (signup_codes db_email_taken) \<and>
   status (fst (student_signup (signup_of ''fresh@live.mut.ac.za'' ''ABCD1234'') db_email_taken)) = 201"
proof -
  have c: "code (signup_of ''202312345@live.mut.ac.za'' ''ABCD1234'') = Some ''ABCD1234''"
    "''ABCD1234'' \<noteq> []"
    by (simp_all add: signup_of_def)
  have found: "list_ex (\<lambda>r. sql_eq (sc_code r) ''ABCD1234'') (signup_codes db_email_taken)"
    by (simp add: signup_eval)
  obtain r d' where run:
    "student_signup (signup_of ''202312345@live.mut.ac.za'' ''ABCD1234'') db_email_taken = (r, d')"
    by (cases "student_signup (signup_of ''202312345@live.mut.ac.za'' ''ABCD1234'') db_email_taken")
  note atomic = student_signup_atomic [OF c found run]
  have taken: "list_ex (\<lambda>u. sql_eq (acc_email u) ''202312345@live.mut.ac.za'') (users db_email_taken)"
    by (simp add: signup_eval)
  from atomic taken have r: "r = Response 400 ''Email already exists in one or both systems''"
    and d': "d' = db_email_taken"
    by (simp_all add: signup_of_def)
  have fresh: "\<not> list_ex (\<lambda>u. sql_eq (acc_email u) ''fresh@live.mut.ac.za'') (student_users db_email_taken)"
     "\<not> list_ex (\<lambda>u. sql_eq (acc_email u) ''fresh@live.mut.ac.za'') (users db_email_taken)"
    by (simp_all add: signup_eval)
  from atomic r d' fresh
  have "status (fst (student_signup (signup_of ''fresh@live.mut.ac.za'' ''ABCD1234'') db_email_taken)) = 201"
    by (simp add: signup_of_def)
  moreover have "student_users db_email_taken = []"
    by (simp add: signup_eval)
  ultimately show ?thesis using run r d' found by simp
qed

section \<open>Validation of signup codes\<close>

lemma validate_signup_code_db: "snd (validate_signup_code cf d) = d"
  by (simp add: validate_signup_code_def split: option.splits list.splits)

lemma validate_signup_code_funpow:
  "((\<lambda>s. snd (validate_signup_code cf s)) ^^ n) d = d"
  by (induction n) (simp_all only: funpow.simps o_apply id_apply validate_signup_code_db)

text \<open>
  Claim C9. The validation handler writes nothing: one call, and any number \<open>n\<close> of calls
  in a row, leave the whole database, and so \<^verbatim>\<open>signup_codes\<close> and \<^verbatim>\<open>blocked_signups\<close>, as
  they were. A code whose first row has an email that is not blocked is therefore answered
  with \<^verbatim>\<open>success: true\<close> after any number of earlier validations of it.
\<close>

theorem validate_signup_code_read_only:
  "snd (validate_signup_code cf d) = d \<and>
   ((\<lambda>s. snd (validate_signup_code cf s)) ^^ n) d = d \<and>
   (c \<noteq> [] \<and> filter (\<lambda>s. sql_eq (sc_code s) c) (signup_codes d) = codeEntry # others \<and>
    \<not> is_blocked d codeEntry \<longrightarrow>
      fst (validate_signup_code (Some c) (((\<lambda>s. snd (validate_signup_code (Some c) s)) ^^ n) d)) =
        Reply 200 True ''Valid code'')"
proof (intro conjI impI)
  show "snd (validate_signup_code cf d) = d"
    by (rule validate_signup_code_db)
  show "((\<lambda>s. snd (validate_signup_code cf s)) ^^ n) d = d"
    by (rule validate_signup_code_funpow)
  assume valid: "c \<noteq> [] \<and>
    filter (\<lambda>s. sql_eq (sc_code s) c) (signup_codes d) = codeEntry # others \<and>
    \<not> is_blocked d codeEntry"
  then have "fst (validate_signup_code (Some c) d) = Reply 200 True ''Valid code''"
    by (simp add: validate_signup_code_def)
  then show "fst (validate_signup_code (Some c)
      (((\<lambda>s. snd (validate_signup_code (Some c) s)) ^^ n) d)) = Reply 200 True ''Valid code''"
    by (simp only: validate_signup_code_funpow)
qed

theorem validate_signup_code_read_only_witness:
  "fst (validate_signup_code (Some ''ABCD1234'')
     (((\<lambda>s. snd (validate_signup_code (Some ''ABCD1234'') s)) ^^ 3) db_code_issued)) =
     Reply 200 True ''Valid code'' \<and>
   ((\<lambda>s. snd (validate_signup_code (Some ''ABCD1234'') s)) ^^ 3) db_code_issued = db_code_issued"
proof -
  have row: "filter (\<lambda>s. sql_eq (sc_code s) ''ABCD1234'') (signup_codes db_code_issued) =
      code_row ''ABCD1234'' ''thabo@live.mut.ac.za'' # []"
    by (simp add: signup_eval)
  have free: "\<not> is_blocked db_code_issued (code_row ''ABCD1234'' ''thabo@live.mut.ac.za'')"
    by (simp add: is_blocked_def signup_eval)
  have code: "''ABCD1234'' \<noteq> []" by simp
  from validate_signup_code_read_only
    [of "Some ''ABCD1234''" db_code_issued 3 "''ABCD1234''"
      "code_row ''ABCD1234'' ''thabo@live.mut.ac.za''" "[]"] row free code
  show ?thesis by blast
qed

section \<open>Issuing staff codes\<close>

declare staff_code_loop.simps [simp del]

lemma loop_step:
  "staff_code_loop rs tbl cv False a k =
     (if a < maxAttempts
      then staff_code_loop rs tbl (Some (rs k)) (length (filter (\<lambda>r. sql_eq (stc_code r) (rs k)) tbl) = 0) (a + 1) (k + 1)
      else (cv, False, a, k))"
  by (subst staff_code_loop.simps) (simp add: generateStaffCode_def)

lemma loop_done: "staff_code_loop rs tbl cv True a k = (cv, True, a, k)"
  by (subst staff_code_loop.simps) simp

lemma loop_all_collide:
  assumes "\<forall>j < maxAttempts - a. length (filter (\<lambda>r. sql_eq (stc_code r) (rs (k + j))) tbl) \<noteq> 0"
    and "a \<le> maxAttempts"
  shows "\<exists>cv'. staff_code_loop rs tbl cv False a k = (cv', False, maxAttempts, k + (maxAttempts - a))"
  using assms
proof (induction "maxAttempts - a" arbitrary: a k cv)
  case 0
  then have "a = maxAttempts" by simp
  then show ?case by (simp add: loop_step)
next
  case (Suc n)
  then have lt: "a < maxAttempts" by simp
  from Suc.prems(1) lt have c0: "length (filter (\<lambda>r. sql_eq (stc_code r) (rs k)) tbl) \<noteq> 0"
    by (metis add.right_neutral zero_less_diff)
  have n: "n = maxAttempts - (a + 1)" using Suc.hyps(2) by simp
  have rest: "\<forall>j < maxAttempts - (a + 1). length (filter (\<lambda>r. sql_eq (stc_code r) (rs (k + 1 + j))) tbl) \<noteq> 0"
  proof (intro allI impI)
    fix j assume "j < maxAttempts - (a + 1)"
    then have "Suc j < maxAttempts - a" by simp
    with Suc.prems(1) have "length (filter (\<lambda>r. sql_eq (stc_code r) (rs (k + Suc j))) tbl) \<noteq> 0" by blast
    then show "length (filter (\<lambda>r. sql_eq (stc_code r) (rs (k + 1 + j))) tbl) \<noteq> 0" by simp
  qed
  from Suc.hyps(1) [OF n rest, of "Some (rs k)"] lt
  obtain cv' where "staff_code_loop rs tbl (Some (rs k)) False (a + 1) (k + 1) =
      (cv', False, maxAttempts, k + 1 + (maxAttempts - (a + 1)))"
    by auto
  with lt c0 show ?case
    by (subst loop_step) (simp)
qed

lemma loop_first_fresh:
  assumes "i < maxAttempts - a"
    and "length (filter (\<lambda>r. sql_eq (stc_code r) (rs (k + i))) tbl) = 0"
    and "\<forall>j < i. length (filter (\<lambda>r. sql_eq (stc_code r) (rs (k + j))) tbl) \<noteq> 0"
  shows "staff_code_loop rs tbl cv False a k = (Some (rs (k + i)), True, a + i + 1, k + i + 1)"
  using assms
proof (induction i arbitrary: a k cv)
  case 0
  then show ?case
    by (subst loop_step) (simp add: loop_done)
next
  case (Suc i)
  then have lt: "a < maxAttempts" by simp
  from Suc.prems(3) have c0: "length (filter (\<lambda>r. sql_eq (stc_code r) (rs k)) tbl) \<noteq> 0"
    by (metis add.right_neutral zero_less_Suc)
  have i: "i < maxAttempts - (a + 1)" using Suc.prems(1) by simp
  have fr: "length (filter (\<lambda>r. sql_eq (stc_code r) (rs (k + 1 + i))) tbl) = 0"
    using Suc.prems(2) by simp
  have rest: "\<forall>j < i. length (filter (\<lambda>r. sql_eq (stc_code r) (rs (k + 1 + j))) tbl) \<noteq> 0"
  proof (intro allI impI)
    fix j assume "j < i"
    then have "Suc j < Suc i" by simp
    with Suc.prems(3) have "length (filter (\<lambda>r. sql_eq (stc_code r) (rs (k + Suc j))) tbl) \<noteq> 0" by blast
    then show "length (filter (\<lambda>r. sql_eq (stc_code r) (rs (k + 1 + j))) tbl) \<noteq> 0" by simp
  qed
  from Suc.IH [OF i fr rest, of "Some (rs k)"]
  have "staff_code_loop rs tbl (Some (rs k)) False (a + 1) (k + 1) =
      (Some (rs (k + 1 + i)), True, a + 1 + i + 1, k + 1 + i + 1)" .
  with lt c0 show ?case
    by (subst loop_step) (simp)
qed


lemma collide_conv: "(length (filter P xs) \<noteq> 0) = list_ex P xs"
  by (simp add: list_ex_iff filter_empty_conv)

lemma create_staff_code_valid:
  assumes "staff_name req = Some n" "n \<noteq> []" "staff_email req = Some e" "e \<noteq> []"
    "emailRegex_test e"
  shows "create_staff_code req rs mail_ok d =
     (case staff_code_loop rs (staff_codes d) None False 0 0 of
        (code_var, isUnique, attempts, calls) \<Rightarrow>
          if \<not> isUnique
          then (Inr (Reply 500 False ''Failed to generate unique staff code''), None, calls, d)
          else
            (case code_var of
               None \<Rightarrow> (Inr (Reply 500 False ''Internal server error''), None, calls, d)
             | Some c \<Rightarrow>
                 (if mail_ok then Inr (Reply 201 True ''Staff code created and sent via email'')
                  else Inl ReferenceError,
                  if mail_ok then Some c else None, calls, insert_staff_code c n e d)))"
  using assms
  by (simp add: create_staff_code_def Let_def
      split: prod.splits option.splits)

text \<open>
  Claim C6. For a request with a name and an email that passes the format test, the handler
  calls the generator at most 5 times. When the \<open>i\<close>-th code drawn (\<open>i < 5\<close>, counted from
  0) is the first that \<^verbatim>\<open>staff_codes\<close> does not hold, the handler has called the generator
  \<open>i + 1\<close> times and has appended exactly one row, which carries that code; it answers 201
  with the code when the mail is delivered, and when the transport fails the row stays
  inserted and the handler ends in the \<^verbatim>\<open>ReferenceError\<close> of its \<^verbatim>\<open>catch\<close> without a reply.
  When all of the first 5 codes are in the table, it has called the generator 5 times,
  answers 500 "Failed to generate unique staff code" and leaves the database as it was.
\<close>

theorem staff_code_bounded_retry:
  assumes valid: "staff_name req = Some n" "n \<noteq> []" "staff_email req = Some e" "e \<noteq> []"
      "emailRegex_test e"
    and run: "create_staff_code req random_source mail_ok d = (r, c, calls, d')"
  shows "calls \<le> 5 \<and>
    (\<forall>i < 5. \<not> list_ex (\<lambda>row. sql_eq (stc_code row) (random_source i)) (staff_codes d) \<and>
        (\<forall>j < i. list_ex (\<lambda>row. sql_eq (stc_code row) (random_source j)) (staff_codes d)) \<longrightarrow>
        calls = i + 1 \<and>
        r = (if mail_ok then Inr (Reply 201 True ''Staff code created and sent via email'')
             else Inl ReferenceError) \<and>
        c = (if mail_ok then Some (random_source i) else None) \<and>
        d' = d\<lparr>staff_codes := staff_codes d @
               [\<lparr>stc_code = random_source i, stc_staff_name = n, stc_staff_email = e\<rparr>]\<rparr>) \<and>
    ((\<forall>i < 5. list_ex (\<lambda>row. sql_eq (stc_code row) (random_source i)) (staff_codes d)) \<longrightarrow>
        calls = 5 \<and> r = Inr (Reply 500 False ''Failed to generate unique staff code'') \<and> d' = d)"
proof -
  let ?taken = "\<lambda>i. list_ex (\<lambda>row. sql_eq (stc_code row) (random_source i)) (staff_codes d)"
  note run' = run [unfolded create_staff_code_valid [OF valid]]
  have found: "calls = i + 1 \<and>
        r = (if mail_ok then Inr (Reply 201 True ''Staff code created and sent via email'')
             else Inl ReferenceError) \<and>
        c = (if mail_ok then Some (random_source i) else None) \<and>
        d' = d\<lparr>staff_codes := staff_codes d @
               [\<lparr>stc_code = random_source i, stc_staff_name = n, stc_staff_email = e\<rparr>]\<rparr>"
    if i: "i < 5" and fresh: "\<not> ?taken i" and before: "\<forall>j < i. ?taken j" for i
  proof -
    have "staff_code_loop random_source (staff_codes d) None False 0 0 =
        (Some (random_source (0 + i)), True, 0 + i + 1, 0 + i + 1)"
      using i fresh before
      by (intro loop_first_fresh) (simp_all add: maxAttempts_def collide_conv [symmetric])
    with run' show ?thesis
      by (auto simp: insert_staff_code_def)
  qed
  have exhausted: "calls = 5 \<and> r = Inr (Reply 500 False ''Failed to generate unique staff code'') \<and> d' = d"
    if all: "\<forall>i < 5. ?taken i"
  proof -
    from all have "\<forall>j < maxAttempts - 0.
        length (filter (\<lambda>r. sql_eq (stc_code r) (random_source (0 + j))) (staff_codes d)) \<noteq> 0"
      by (simp add: maxAttempts_def list_ex_iff filter_empty_conv)
    from loop_all_collide [OF this, of None] obtain cv' where
      "staff_code_loop random_source (staff_codes d) None False 0 0 =
         (cv', False, maxAttempts, 0 + (maxAttempts - 0))"
      by auto
    with run' show ?thesis
      by (auto simp: maxAttempts_def)
  qed
  have bound: "calls \<le> 5"
  proof (cases "\<forall>i < 5. ?taken i")
    case True
    with exhausted show ?thesis by simp
  next
    case False
    then have "\<exists>i. i < 5 \<and> \<not> ?taken i" by blast
    then obtain i where "i < 5 \<and> \<not> ?taken i" and least: "\<forall>j < i. \<not> (j < 5 \<and> \<not> ?taken j)"
      unfolding exists_least_iff [of "\<lambda>i. i < 5 \<and> \<not> ?taken i"] by blast
    then have "i < 5" "\<not> ?taken i" "\<forall>j < i. ?taken j" by auto
    from found [OF this] \<open>i < 5\<close> show ?thesis by simp
  qed
  from bound found exhausted show ?thesis by blast
qed

theorem staff_code_bounded_retry_witness:
  "create_staff_code (staff_of ''Dr Dlamini'' ''dlamini@uj.ac.za'') third_is_fresh True db_staff =
     (Inr (Reply 201 True ''Staff code created and sent via email''), Some ''7PLM2Z'', 3,
      db_staff\<lparr>staff_codes := staff_codes db_staff @
        [\<lparr>stc_code = ''7PLM2Z'', stc_staff_name = ''Dr Dlamini'',
          stc_staff_email = ''dlamini@uj.ac.za''\<rparr>]\<rparr>) \<and>
   create_staff_code (staff_of ''Dr Dlamini'' ''dlamini@uj.ac.za'') third_is_fresh False db_staff =
     (Inl ReferenceError, None, 3,
      db_staff\<lparr>staff_codes := staff_codes db_staff @
        [\<lparr>stc_code = ''7PLM2Z'', stc_staff_name = ''Dr Dlamini'',
          stc_staff_email = ''dlamini@uj.ac.za''\<rparr>]\<rparr>) \<and>
   create_staff_code (staff_of ''Dr Dlamini'' ''dlamini@uj.ac.za'') always_taken True db_staff =
     (Inr (Reply 500 False ''Failed to generate unique staff code''), None, 5, db_staff)"
proof -
  let ?req = "staff_of ''Dr Dlamini'' ''dlamini@uj.ac.za''"
  have valid: "staff_name ?req = Some ''Dr Dlamini''" "''Dr Dlamini'' \<noteq> []"
    "staff_email ?req = Some ''dlamini@uj.ac.za''" "''dlamini@uj.ac.za'' \<noteq> []"
    "emailRegex_test ''dlamini@uj.ac.za''"
    by (simp_all add: staff_of_def emailRegex_test_def regex_space_def)
  obtain r c calls d' where run:
    "create_staff_code ?req third_is_fresh True db_staff = (r, c, calls, d')"
    by (cases "create_staff_code ?req third_is_fresh True db_staff")
  obtain r1 c1 calls1 d1 where run1:
    "create_staff_code ?req third_is_fresh False db_staff = (r1, c1, calls1, d1)"
    by (cases "create_staff_code ?req third_is_fresh False db_staff")
  obtain r2 c2 calls2 d2 where run2:
    "create_staff_code ?req always_taken True db_staff = (r2, c2, calls2, d2)"
    by (cases "create_staff_code ?req always_taken True db_staff")
  have third: "(2::nat) < 5" by simp
  have fresh: "\<not> list_ex (\<lambda>row. sql_eq (stc_code row) (third_is_fresh 2)) (staff_codes db_staff) \<and>
        (\<forall>j < 2. list_ex (\<lambda>row. sql_eq (stc_code row) (third_is_fresh j)) (staff_codes db_staff))"
    by (simp add: third_is_fresh_def db_staff_def empty_db_def sql_eq_def fold_case_def)
  from fresh
    staff_code_bounded_retry [OF valid run, THEN conjunct2, THEN conjunct1, rule_format, OF third]
  have delivered: "r = Inr (Reply 201 True ''Staff code created and sent via email'') \<and>
      c = Some ''7PLM2Z'' \<and> calls = 3 \<and>
      d' = db_staff\<lparr>staff_codes := staff_codes db_staff @
        [\<lparr>stc_code = ''7PLM2Z'', stc_staff_name = ''Dr Dlamini'',
          stc_staff_email = ''dlamini@uj.ac.za''\<rparr>]\<rparr>"
    by (simp add: third_is_fresh_def)
  from fresh
    staff_code_bounded_retry [OF valid run1, THEN conjunct2, THEN conjunct1, rule_format, OF third]
  have undelivered: "r1 = Inl ReferenceError \<and> c1 = None \<and> calls1 = 3 \<and>
      d1 = db_staff\<lparr>staff_codes := staff_codes db_staff @
        [\<lparr>stc_code = ''7PLM2Z'', stc_staff_name = ''Dr Dlamini'',
          stc_staff_email = ''dlamini@uj.ac.za''\<rparr>]\<rparr>"
    by (simp add: third_is_fresh_def)
  have "\<forall>i < 5. list_ex (\<lambda>row. sql_eq (stc_code row) (always_taken i)) (staff_codes db_staff)"
    by (simp add: always_taken_def db_staff_def empty_db_def sql_eq_def)
  with staff_code_bounded_retry [OF valid run2] have exhausted:
    "calls2 = 5 \<and> r2 = Inr (Reply 500 False ''Failed to generate unique staff code'') \<and>
     d2 = db_staff"
    by blast
  from exhausted run2 have "c2 = None"
    by (simp add: create_staff_code_valid [OF valid] split: prod.splits if_splits option.splits)
  with delivered undelivered exhausted run run1 run2 show ?thesis by simp
qed

section \<open>Recomputing the status of a student\<close>

lemma select_student_set_status:
  "select_student sn (set_student_status st sn d) =
     map (\<lambda>r. r\<lparr>su_status := Some st\<rparr>) (select_student sn d)"
  by (simp add: select_student_def set_student_status_def filter_map o_def)

lemma last_log_date_set_status:
  "last_log_date sn' (set_student_status st sn d) = last_log_date sn' d"
  by (simp add: last_log_date_def set_student_status_def)

lemma sql_max_Max: "sql_max xs = (if xs = [] then None else Some (Max (set xs)))"
  by (induction xs) (auto split: option.splits)


lemma update_student_status_found:
  assumes "select_student sn d = student0 # others"
  shows "update_student_status today sn d =
     (case compute_new_status today (last_log_date sn d) of
        (newStatus, msg, days) \<Rightarrow>
          (Inr \<lparr>body_message = msg, status_changed = (Some newStatus \<noteq> su_status student0),
                 data = Some (student0\<lparr>su_status := Some newStatus\<rparr>),
                 last_activity_date = last_log_date sn d,
                 days_since_last_activity = days\<rparr>,
           if Some newStatus \<noteq> su_status student0 then set_student_status newStatus sn d else d))"
proof -
  have same: "su_status student0 = Some st \<Longrightarrow> student0\<lparr>su_status := Some st\<rparr> = student0" for st
    by simp
  show ?thesis
    using assms
    by (auto simp: update_student_status_def Let_def select_student_set_status same
        split: prod.splits)
qed

text \<open>
  Claim C5. For a student that the handler finds, let \<open>logs\<close> be the log dates of the
  student's logsheets. The target status is "inactive" when there is none; otherwise, with
  \<open>d\<close> the days from the latest of them to today, it is "active" when \<open>d \<le> 10\<close> and
  "inactive" when \<open>d > 10\<close>. The handler answers 200, the student row it reports and the
  first row that the student's pattern selects afterwards carry the target status, the
  reply's \<^verbatim>\<open>days_since_last_activity\<close> is \<open>d\<close>, and \<^verbatim>\<open>status_changed\<close> tells whether the
  stored status differed from the target; when it did, every row the pattern selects has
  been set to the target.
\<close>

theorem update_student_status_threshold:
  assumes found: "select_student sn d = student0 # others"
    and logs: "logs = map log_date
       (filter (\<lambda>r. sql_eq (log_student_number r) sn) (daily_logsheet d))"
    and target: "target = (if logs = [] then ''inactive''
                           else if today - Max (set logs) \<le> 10 then ''active'' else ''inactive'')"
  shows "\<exists>body d'. update_student_status today sn d = (Inr body, d') \<and>
           data body = Some (student0\<lparr>su_status := Some target\<rparr>) \<and>
           (\<exists>rest. select_student sn d' = student0\<lparr>su_status := Some target\<rparr> # rest) \<and>
           status_changed body = (su_status student0 \<noteq> Some target) \<and>
           days_since_last_activity body =
             (if logs = [] then None else Some (today - Max (set logs))) \<and>
           (status_changed body \<longrightarrow>
              list_all (\<lambda>r. su_status r = Some target) (select_student sn d'))"
proof -
  have last: "last_log_date sn d = (if logs = [] then None else Some (Max (set logs)))"
    by (simp add: last_log_date_def logs sql_max_Max)
  have same: "su_status student0 = Some target \<Longrightarrow> student0\<lparr>su_status := Some target\<rparr> = student0"
    by simp
  show ?thesis
    using found
    by (auto simp: update_student_status_found [OF found] last target compute_new_status_def
        Let_def select_student_set_status same list_all_iff)
qed

text \<open>
  Claim C7. When the handler has run for a student it finds, a second run on the database
  the first one left, with the same date, answers 200 with \<^verbatim>\<open>status_changed\<close> false and
  returns that database unchanged, so the stored status is the one after the first run.
\<close>

theorem update_student_status_idempotent:
  assumes found: "select_student sn d \<noteq> []"
    and first: "update_student_status today sn d = (res1, d1)"
  shows "\<exists>body2. update_student_status today sn d1 = (Inr body2, d1) \<and>
           status_changed body2 = False \<and>
           map su_status (select_student sn d1) =
             map su_status (select_student sn (snd (update_student_status today sn d1)))"
proof -
  from found obtain student0 others where sel: "select_student sn d = student0 # others"
    by (cases "select_student sn d") auto
  obtain newStatus msg days where comp:
    "compute_new_status today (last_log_date sn d) = (newStatus, msg, days)"
    by (cases "compute_new_status today (last_log_date sn d)")
  from first have d1: "d1 = (if Some newStatus \<noteq> su_status student0
                              then set_student_status newStatus sn d else d)"
    by (simp add: update_student_status_found [OF sel] comp)
  have logs1: "last_log_date sn d1 = last_log_date sn d"
    by (simp add: d1 last_log_date_set_status)
  have "\<exists>others1. select_student sn d1 = student0\<lparr>su_status := Some newStatus\<rparr> # others1"
    by (cases "Some newStatus = su_status student0")
       (auto simp: d1 sel select_student_set_status)
  then obtain others1 where sel1:
    "select_student sn d1 = student0\<lparr>su_status := Some newStatus\<rparr> # others1"
    by blast
  show ?thesis
    by (simp add: update_student_status_found [OF sel1] logs1 comp)
qed

text \<open>
  Claim C10. For a student that the handler finds and whose latest log date is at most 10
  days before today, the recomputation answers with the student's row set to "active" and
  stores that status, whatever the status was. In particular, after the suspend handler or
  the unenroll handler has set the student's rows to "suspended" or "unenrolled", the
  recomputation sets all of them to "active".
\<close>

theorem recompute_overrides_admin_status:
  assumes found: "select_student sn d = student0 # others"
    and recent: "last_log_date sn d = Some l" "today - l \<le> 10"
  shows "(\<exists>body d'. update_student_status today sn d = (Inr body, d') \<and>
            data body = Some (student0\<lparr>su_status := Some ''active''\<rparr>) \<and>
            (\<exists>rest. select_student sn d' = student0\<lparr>su_status := Some ''active''\<rparr> # rest)) \<and>
         list_all (\<lambda>r. su_status r = Some ''suspended'')
           (select_student sn (snd (suspend_student sn d))) \<and>
         list_all (\<lambda>r. su_status r = Some ''active'')
           (select_student sn (snd (update_student_status today sn (snd (suspend_student sn d))))) \<and>
         list_all (\<lambda>r. su_status r = Some ''unenrolled'')
           (select_student sn (snd (unenroll_student sn d))) \<and>
         list_all (\<lambda>r. su_status r = Some ''active'')
           (select_student sn (snd (update_student_status today sn (snd (unenroll_student sn d)))))"
proof -
  have comp: "compute_new_status today (Some l) = (''active'', Reactivated (today - l), Some (today - l))"
    using recent by (simp add: compute_new_status_def Let_def)
  have same: "su_status student0 = Some ''active'' \<Longrightarrow> student0\<lparr>su_status := Some ''active''\<rparr> = student0"
    by simp
  have direct: "\<exists>body d'. update_student_status today sn d = (Inr body, d') \<and>
            data body = Some (student0\<lparr>su_status := Some ''active''\<rparr>) \<and>
            (\<exists>rest. select_student sn d' = student0\<lparr>su_status := Some ''active''\<rparr> # rest)"
    using found
    by (auto simp: update_student_status_found [OF found] recent comp select_student_set_status same)
  have admin: "list_all (\<lambda>r. su_status r = Some st) (select_student sn (set_student_status st sn d)) \<and>
      list_all (\<lambda>r. su_status r = Some ''active'')
        (select_student sn (snd (update_student_status today sn (set_student_status st sn d))))"
    if "st \<noteq> ''active''" for st
  proof -
    let ?d1 = "set_student_status st sn d"
    have sel1: "select_student sn ?d1 = student0\<lparr>su_status := Some st\<rparr> #
        map (\<lambda>r. r\<lparr>su_status := Some st\<rparr>) others"
      by (simp add: select_student_set_status found)
    have logs1: "last_log_date sn ?d1 = Some l"
      by (simp add: last_log_date_set_status recent)
    show ?thesis
      using that
      by (simp add: update_student_status_found [OF sel1] logs1 comp select_student_set_status
          found list_all_iff)
  qed
  have susp: "snd (suspend_student sn d) = set_student_status ''suspended'' sn d"
    by (simp add: suspend_student_def found Let_def)
  have unen: "snd (unenroll_student sn d) = set_student_status ''unenrolled'' sn d"
    by (simp add: unenroll_student_def found Let_def)
  from direct admin [of "''suspended''"] admin [of "''unenrolled''"] show ?thesis
    by (simp add: susp unen)
qed


lemma db_student_select:
  "select_student ''202312345'' (db_student st days) =
     student_row ''202312345@live.mut.ac.za'' st # []"
  by (simp add: status_eval)

lemma db_student_logs:
  "map log_date (filter (\<lambda>r. sql_eq (log_student_number r) ''202312345'')
     (daily_logsheet (db_student st days))) = days"
  by (simp add: status_eval filter_map o_def map_idI)

theorem update_student_status_threshold_witness:
  "(\<exists>body d'. update_student_status 410 ''202312345'' (db_student (Some ''inactive'') [395, 400]) =
       (Inr body, d') \<and>
     data body = Some (student_row ''202312345@live.mut.ac.za'' (Some ''active'')) \<and>
     days_since_last_activity body = Some 10 \<and> status_changed body) \<and>
   (\<exists>body d'. update_student_status 411 ''202312345'' (db_student (Some ''active'') [395, 400]) =
       (Inr body, d') \<and>
     data body = Some (student_row ''202312345@live.mut.ac.za'' (Some ''inactive'')) \<and>
     days_since_last_activity body = Some 11 \<and> status_changed body) \<and>
   (\<exists>body d'. update_student_status 411 ''202312345'' (db_student (Some ''active'') []) =
       (Inr body, d') \<and>
     data body = Some (student_row ''202312345@live.mut.ac.za'' (Some ''inactive'')) \<and>
     days_since_last_activity body = None \<and> status_changed body)"
proof -
  have at10: "''active'' = (if [395, 400 :: int] = [] then ''inactive''
        else if 410 - Max (set [395, 400 :: int]) \<le> 10 then ''active'' else ''inactive'')"
    by simp
  have at11: "''inactive'' = (if [395, 400 :: int] = [] then ''inactive''
        else if 411 - Max (set [395, 400 :: int]) \<le> 10 then ''active'' else ''inactive'')"
    by simp
  have none: "''inactive'' = (if ([] :: int list) = [] then ''inactive''
        else if 411 - Max (set ([] :: int list)) \<le> 10 then ''active'' else ''inactive'')"
    by simp
  note a = update_student_status_threshold
    [OF db_student_select db_student_logs [symmetric] at10, of "Some ''inactive''"]
  note b = update_student_status_threshold
    [OF db_student_select db_student_logs [symmetric] at11, of "Some ''active''"]
  note c = update_student_status_threshold
    [OF db_student_select db_student_logs [symmetric] none, of "Some ''active''"]
  from a have "\<exists>body d'. update_student_status 410 ''202312345''
         (db_student (Some ''inactive'') [395, 400]) = (Inr body, d') \<and>
     data body = Some (student_row ''202312345@live.mut.ac.za'' (Some ''active'')) \<and>
     days_since_last_activity body = Some 10 \<and> status_changed body"
    by (auto simp: student_row_def)
  moreover from b have "\<exists>body d'. update_student_status 411 ''202312345''
         (db_student (Some ''active'') [395, 400]) = (Inr body, d') \<and>
     data body = Some (student_row ''202312345@live.mut.ac.za'' (Some ''inactive'')) \<and>
     days_since_last_activity body = Some 11 \<and> status_changed body"
    by (auto simp: student_row_def)
  moreover from c have "\<exists>body d'. update_student_status 411 ''202312345''
         (db_student (Some ''active'') []) = (Inr body, d') \<and>
     data body = Some (student_row ''202312345@live.mut.ac.za'' (Some ''inactive'')) \<and>
     days_since_last_activity body = None \<and> status_changed body"
    by (auto simp: student_row_def)
  ultimately show ?thesis by blast
qed

theorem update_student_status_idempotent_witness:
  "snd (update_student_status 410 ''202312345'' (db_student (Some ''inactive'') [395, 400])) =
     db_student (Some ''active'') [395, 400] \<and>
   (\<exists>body2. update_student_status 410 ''202312345'' (db_student (Some ''active'') [395, 400]) =
       (Inr body2, db_student (Some ''active'') [395, 400]) \<and>
     status_changed body2 = False)"
proof -
  have found: "select_student ''202312345'' (db_student (Some ''inactive'') [395, 400]) \<noteq> []"
    by (simp add: db_student_select)
  have d1: "snd (update_student_status 410 ''202312345'' (db_student (Some ''inactive'') [395, 400])) =
     db_student (Some ''active'') [395, 400]"
    by (simp add: update_student_status_found [OF db_student_select])
       (simp add: status_eval)
  then have first: "update_student_status 410 ''202312345'' (db_student (Some ''inactive'') [395, 400]) =
     (fst (update_student_status 410 ''202312345'' (db_student (Some ''inactive'') [395, 400])),
      db_student (Some ''active'') [395, 400])"
    by (metis prod.collapse)
  from update_student_status_idempotent [OF found first] d1 show ?thesis
    by blast
qed

theorem recompute_overrides_admin_status_witness:
  "list_all (\<lambda>r. su_status r = Some ''suspended'')
     (select_student ''202312345''
       (snd (suspend_student ''202312345'' (db_student (Some ''active'') [395, 400])))) \<and>
   list_all (\<lambda>r. su_status r = Some ''active'')
     (select_student ''202312345''
       (snd (update_student_status 410 ''202312345''
         (snd (suspend_student ''202312345'' (db_student (Some ''active'') [395, 400])))))) \<and>
   list_all (\<lambda>r. su_status r = Some ''active'')
     (select_student ''202312345''
       (snd (update_student_status 410 ''202312345''
         (snd (unenroll_student ''202312345'' (db_student (Some ''active'') [395, 400]))))))"
proof -
  have last: "last_log_date ''202312345'' (db_student (Some ''active'') [395, 400]) = Some 400"
    by (simp add: status_eval)
  have recent: "(410::int) - 400 \<le> 10" by simp
  from recompute_overrides_admin_status [OF db_student_select last recent]
  show ?thesis by blast
qed

section \<open>Registering for a lecture\<close>

lemma register_lecture_count:
  "registration_count e s (snd (register_lecture today event_id student_id d)) \<le>
     max 1 (registration_count e s d)"
  by (auto simp: register_lecture_def registration_count_def Let_def Suc_le_eq
      split: option.splits list.splits)

text \<open>
  Claim C8. For a request that names an event with \<^verbatim>\<open>register_status\<close> "active" and a date
  not before today, and a student with an accepted application, the handler inserts a row
  into \<^verbatim>\<open>event_attendance\<close> exactly when the pair of the event and the application has no
  row yet, and the pair then has one; when the pair has at least one row the handler
  answers 403 and changes nothing. For every request and every pair, the count of the
  pair's rows after the handler is at most the larger of 1 and the count before it.
\<close>

theorem register_lecture_cap:
  assumes request: "ev \<noteq> 0" "sid \<noteq> []"
    and event: "filter (\<lambda>r. gl_id r = ev) (guest_lectures d) = event # events"
      "gl_register_status event = ''active''" "today \<le> gl_event_date event"
    and accepted: "filter (\<lambda>r. sql_eq (app_student_number r) sid \<and>
                              sql_eq (app_status r) ''accepted'') (wil_application d) =
                   application # applications"
  shows "(registration_count ev (app_id application) d = 0 \<longrightarrow>
            register_lecture today (Some ev) (Some sid) d =
              (Reply 201 True ''Successfully registered for the lecture'',
               d\<lparr>event_attendance := event_attendance d @
                   [\<lparr>ea_event_id = ev, ea_student_id = app_id application,
                     ea_attended = False\<rparr>]\<rparr>) \<and>
            registration_count ev (app_id application)
              (snd (register_lecture today (Some ev) (Some sid) d)) = 1) \<and>
         (1 \<le> registration_count ev (app_id application) d \<longrightarrow>
            register_lecture today (Some ev) (Some sid) d =
              (Reply 403 False ''Maximum registrations (2) reached for this event'', d)) \<and>
         registration_count e s (snd (register_lecture today' event_id student_id d)) \<le>
           max 1 (registration_count e s d)"
proof (intro conjI impI)
  assume none: "registration_count ev (app_id application) d = 0"
  with request event accepted
  show run: "register_lecture today (Some ev) (Some sid) d =
              (Reply 201 True ''Successfully registered for the lecture'',
               d\<lparr>event_attendance := event_attendance d @
                   [\<lparr>ea_event_id = ev, ea_student_id = app_id application,
                     ea_attended = False\<rparr>]\<rparr>)"
    by (simp add: register_lecture_def Let_def)
  from none show "registration_count ev (app_id application)
              (snd (register_lecture today (Some ev) (Some sid) d)) = 1"
    by (simp add: run) (simp add: registration_count_def)
next
  assume "1 \<le> registration_count ev (app_id application) d"
  with request event accepted
  show "register_lecture today (Some ev) (Some sid) d =
              (Reply 403 False ''Maximum registrations (2) reached for this event'', d)"
    by (simp add: register_lecture_def Let_def)
next
  show "registration_count e s (snd (register_lecture today' event_id student_id d)) \<le>
           max 1 (registration_count e s d)"
    by (rule register_lecture_count)
qed

theorem register_lecture_cap_witness:
  "register_lecture 410 (Some 7) (Some ''202312345'') (db_lecture []) =
     (Reply 201 True ''Successfully registered for the lecture'',
      db_lecture [\<lparr>ea_event_id = 7, ea_student_id = 1, ea_attended = False\<rparr>]) \<and>
   register_lecture 410 (Some 7) (Some ''202312345'')
       (db_lecture [\<lparr>ea_event_id = 7, ea_student_id = 1, ea_attended = False\<rparr>]) =
     (Reply 403 False ''Maximum registrations (2) reached for this event'',
      db_lecture [\<lparr>ea_event_id = 7, ea_student_id = 1, ea_attended = False\<rparr>])"
proof -
  have request: "(7::nat) \<noteq> 0" "''202312345'' \<noteq> []" by simp_all
  have event: "filter (\<lambda>r. gl_id r = 7) (guest_lectures (db_lecture regs)) =
      \<lparr>gl_id = 7, gl_register_status = ''active'', gl_event_date = 420\<rparr> # []"
    "gl_register_status \<lparr>gl_id = 7, gl_register_status = ''active'', gl_event_date = 420\<rparr> = ''active''"
    "410 \<le> gl_event_date \<lparr>gl_id = 7, gl_register_status = ''active'', gl_event_date = 420\<rparr>" for regs
    by (simp_all add: db_lecture_def empty_db_def)
  have accepted: "filter (\<lambda>r. sql_eq (app_student_number r) ''202312345'' \<and>
        sql_eq (app_status r) ''accepted'') (wil_application (db_lecture regs)) =
      application_of 1 ''202312345'' ''Accepted'' # []" for regs
    by (simp add: db_lecture_def empty_db_def application_of_def sql_eq_def fold_case_def)
  have none: "registration_count 7 (app_id (application_of 1 ''202312345'' ''Accepted''))
      (db_lecture []) = 0"
    by (simp add: registration_count_def db_lecture_def empty_db_def)
  have one: "1 \<le> registration_count 7 (app_id (application_of 1 ''202312345'' ''Accepted''))
      (db_lecture [\<lparr>ea_event_id = 7, ea_student_id = 1, ea_attended = False\<rparr>])"
    by (simp add: registration_count_def db_lecture_def empty_db_def application_of_def)
  from register_lecture_cap [OF request event accepted, of "[]"] none
  have "register_lecture 410 (Some 7) (Some ''202312345'') (db_lecture []) =
     (Reply 201 True ''Successfully registered for the lecture'',
      db_lecture [\<lparr>ea_event_id = 7, ea_student_id = 1, ea_attended = False\<rparr>])"
    by (simp add: db_lecture_def empty_db_def application_of_def)
  moreover
  from register_lecture_cap [OF request event accepted,
      of "[\<lparr>ea_event_id = 7, ea_student_id = 1, ea_attended = False\<rparr>]"] one
  have "register_lecture 410 (Some 7) (Some ''202312345'')
       (db_lecture [\<lparr>ea_event_id = 7, ea_student_id = 1, ea_attended = False\<rparr>]) =
     (Reply 403 False ''Maximum registrations (2) reached for this event'',
      db_lecture [\<lparr>ea_event_id = 7, ea_student_id = 1, ea_attended = False\<rparr>])"
    by simp
  ultimately show ?thesis by simp
qed

section \<open>Blocked emails\<close>

text \<open>
  Claim C3. Once an email has been blocked, no code whose stored email is that email should
  be redeemable. The signup handler never reads \<^verbatim>\<open>blocked_signups\<close>: with the code
  \<^verbatim>\<open>ABCD1234\<close> issued to \<^verbatim>\<open>thabo@live.mut.ac.za\<close> and that email blocked, the validation
  handler answers "This email is blocked from signing up", and the signup handler, given
  the same code, answers 201, creates both account rows and deletes the code.
\<close>

theorem blocked_email_still_redeems:
  "block_signup_email (Some ''thabo@live.mut.ac.za'') db_code_issued =
     (Reply 200 True ''Email has been blocked'',
      db_code_issued\<lparr>blocked_signups := [''thabo@live.mut.ac.za'']\<rparr>) \<and>
   validate_signup_code (Some ''ABCD1234'')
       (db_code_issued\<lparr>blocked_signups := [''thabo@live.mut.ac.za'']\<rparr>) =
     (Reply 200 False ''This email is blocked from signing up'',
      db_code_issued\<lparr>blocked_signups := [''thabo@live.mut.ac.za'']\<rparr>) \<and>
   student_signup (signup_of ''thabo@live.mut.ac.za'' ''ABCD1234'')
       (db_code_issued\<lparr>blocked_signups := [''thabo@live.mut.ac.za'']\<rparr>) =
     (Response 201 ''User registered successfully in both systems'',
      empty_db\<lparr>blocked_signups := [''thabo@live.mut.ac.za''],
               student_users := [student_row ''thabo@live.mut.ac.za'' (Some ''active'')],
               users := [user_row ''thabo@live.mut.ac.za'']\<rparr>)"
  by (simp add: block_signup_email_def validate_signup_code_def is_blocked_def signup_eval)

section \<open>Mail failure during a status update\<close>

text \<open>
  Claim C4. A failure of the outbound mail should not undo the status update. The handler
  awaits the mail before \<^verbatim>\<open>connection.commit()\<close>, inside the \<^verbatim>\<open>try\<close> whose \<^verbatim>\<open>catch\<close> rolls
  back: for application 42, "Accepted" with a delivering transport is answered with 200,
  the status stored and the code issued; with a failing transport it is answered with 500
  "Database operation failed" and the database is the one before the request, status
  "Pending" and no code. "Rejected" with a failing transport is answered the same way.
\<close>

theorem mail_failure_rolls_back_status:
  "update_status 42 (Some ''Accepted'') ''K7Q2M9XA'' True (db_application ''Pending'' []) =
     (Reply 200 True ''Status updated successfully'', Some ''K7Q2M9XA'',
      db_application ''Accepted'' [code_row ''K7Q2M9XA'' ''thabo@live.mut.ac.za'']) \<and>
   update_status 42 (Some ''Accepted'') ''K7Q2M9XA'' False (db_application ''Pending'' []) =
     (Reply 500 False ''Database operation failed'', None, db_application ''Pending'' []) \<and>
   update_status 42 (Some ''Rejected'') ''K7Q2M9XA'' False (db_application ''Pending'' []) =
     (Reply 500 False ''Database operation failed'', None, db_application ''Pending'' [])"
  by (simp add: update_status_def update_status_step3_def update_application_status_def
      insert_signup_code_def sendAcceptanceEmail_def sendRejectionEmail_def bind_err_def
      db_application_def application_of_def empty_db_def code_row_def Let_def)

end
